theory Spec2Isabelle
  imports Main Complex_Main "HOL-Library.Word"
begin

section \<open>ADPFManager: the thermal and performance-hint coordinator\<close>

text \<open>
  A shallow embedding of \<^verbatim>\<open>app/src/main/cpp/adpf_manager.{h,cpp}\<close>.

  \<^item> The class \<^verbatim>\<open>ADPFManager\<close> is a record of its data members; every member
    function takes the object and returns the updated object.
  \<^item> The conditional compilation on \<^verbatim>\<open>__ANDROID_API__\<close> is a branch on a field of
    the build configuration, so that one model covers every tier.
  \<^item> Pointers, JNI object references and method ids are natural numbers, 0 being
    \<^verbatim>\<open>nullptr\<close>.
  \<^item> \<^verbatim>\<open>int32_t\<close> and \<^verbatim>\<open>int64_t\<close>/\<^verbatim>\<open>jlong\<close> are 32 and 64 bit words. A time point of the
    clock is its tick count in nanoseconds, a signed 64 bit word; subtraction wraps
    and comparisons are signed.
  \<^item> The platform is not modelled: what it answers during a call (the handle a
    creation returns, the headroom, whether \<^verbatim>\<open>setThreads\<close> throws) is an argument of
    the call, and every call made to it is appended to a trace kept beside the object.
    The value read from the clock is an argument as well.
\<close>

subsection \<open>Types\<close>

type_synonym ptr = nat
type_synonym int32_t = "32 word"
type_synonym int64_t = "64 word"
type_synonym jlong = "64 word"
type_synonym time_point = "64 word"

abbreviation (input) nullptr :: ptr where
  "nullptr \<equiv> 0"

text \<open>
  The build and the device. \<open>ANDROID_API\<close> is the value of the macro
  \<^verbatim>\<open>__ANDROID_API__\<close>. \<open>ANDROID_API_unsuffixed\<close> is the value the preprocessor gives to
  the identifier \<^verbatim>\<open>__ANDROID_API\<close> (no trailing underscores) that the destructor tests:
  an identifier that is not a defined macro is replaced by 0 in \<^verbatim>\<open>#if\<close>, and neither the
  NDK nor the sources at hand define this one. \<open>device_api_level\<close> is what
  \<^verbatim>\<open>android_get_device_api_level()\<close> returns.
\<close>

record config =
  ANDROID_API :: nat
  ANDROID_API_unsuffixed :: nat
  device_api_level :: nat

text \<open>The answers of the platform during one call of a member function.\<close>

record platform =
  gettid :: int32_t
  AThermal_acquireManager_result :: ptr
  headroom_result :: real
  APerformanceHint_getManager_result :: ptr
  APerformanceHint_createSession_result :: ptr
  power_service_object :: ptr
  mid_getThermalHeadroom :: ptr
  perfhint_service_object :: ptr
  mid_createHintSession :: ptr
  createHintSession_result :: ptr
  getPreferredUpdateRateNanos_result :: jlong
  mid_reportActualWorkDuration :: ptr
  mid_updateTargetWorkDuration :: ptr
  mid_setThreads :: ptr
  setThreads_throws :: bool

text \<open>
  The calls that leave the coordinator: the NDK functions, the JNI calls on platform
  objects, and the invocation of the registered listener. Arrays are passed by
  content. Class and method lookups and local references leave no event.
\<close>

datatype event =
    Listener_invoked ptr int32_t int32_t
  | AThermal_acquireManager
  | AThermal_releaseManager ptr
  | AThermal_getThermalHeadroom ptr int
  | APerformanceHint_getManager
  | APerformanceHint_createSession ptr "int32_t list" nat int64_t
  | APerformanceHint_closeSession ptr
  | APerformanceHint_reportActualWorkDuration ptr int64_t
  | APerformanceHint_updateTargetWorkDuration ptr int64_t
  | APerformanceHint_setThreads ptr "int32_t list" nat
  | JNI_getSystemService string
  | JNI_NewGlobalRef ptr
  | JNI_DeleteGlobalRef ptr
  | JNI_getThermalHeadroom ptr ptr int
  | JNI_createHintSession ptr ptr "int32_t list" jlong
  | JNI_getPreferredUpdateRateNanos ptr
  | JNI_CallVoidMethod_long ptr ptr jlong
  | JNI_NewIntArray nat
  | JNI_SetIntArrayRegion nat nat "int32_t list"
  | JNI_CallVoidMethod_array ptr ptr "int32_t list"
  | JNI_ExceptionCheck
  | JNI_ExceptionDescribe
  | JNI_ExceptionClear

text \<open>
  The data members of the class, the static member \<open>thermalListener\<close>, and three
  fields that are not members: the pending-exception flag of the JNI environment, the
  trace of calls made so far, and a counter of the entries into
  \<open>UpdateThermalStatusHeadRoom\<close>. Members that exist on one tier only are present on
  every tier and left alone by the others. A member \<^verbatim>\<open>name_\<close> of the class is the field
  \<open>name\<close>: an identifier cannot end with an underscore here.
\<close>

record ADPFManager =
  thermal_manager :: ptr
  thermal_status :: int32_t
  thermal_headroom :: real
  last_clock :: time_point
  app :: ptr
  obj_power_service :: ptr
  get_thermal_headroom :: ptr
  perf_start :: time_point
  thread_ids :: "int32_t list"
  hint_manager :: ptr
  hint_session :: ptr
  last_target :: int64_t
  preferred_update_rate :: jlong
  obj_perfhint_service :: ptr
  obj_perfhint_session :: ptr
  create_hint_session :: ptr
  set_threads :: ptr
  report_actual_work_duration :: ptr
  update_target_work_duration :: ptr
  thermalListener :: ptr
  jni_exception_pending :: bool
  trace :: "event list"
  headroom_refreshes :: nat

definition emit :: "event list \<Rightarrow> ADPFManager \<Rightarrow> ADPFManager" where
  "emit es s = s\<lparr>trace := trace s @ es\<rparr>"

subsection \<open>Construction\<close>

text \<open>
  \<^verbatim>\<open>kThermalHeadroomUpdateThreshold = std::chrono::seconds(1)\<close>: its count, and the
  same duration in the nanosecond ticks of the clock.
\<close>

definition kThermalHeadroomUpdateThreshold_count :: int where
  "kThermalHeadroomUpdateThreshold_count = 1"

definition kThermalHeadroomUpdateThreshold :: "64 word" where
  "kThermalHeadroomUpdateThreshold = 1000000000"

definition DEFAULT_TARGET_NS :: jlong where
  "DEFAULT_TARGET_NS = 16666666"

text \<open>
  The constructor and the default member initialisers. The instance is a static
  object, so the members the constructor does not mention start zeroed. \<open>now\<close> is the
  clock at construction.
\<close>

definition ADPFManager_ctor :: "time_point \<Rightarrow> ADPFManager" where
  "ADPFManager_ctor now =
     \<lparr> thermal_manager = nullptr,
       thermal_status = 0,
       thermal_headroom = 0,
       last_clock = now,
       app = nullptr,
       obj_power_service = nullptr,
       get_thermal_headroom = 0,
       perf_start = 0,
       thread_ids = [],
       hint_manager = nullptr,
       hint_session = nullptr,
       last_target = 16666666,
       preferred_update_rate = 0,
       obj_perfhint_service = nullptr,
       obj_perfhint_session = nullptr,
       create_hint_session = 0,
       set_threads = 0,
       report_actual_work_duration = 0,
       update_target_work_duration = 0,
       thermalListener = nullptr,
       jni_exception_pending = False,
       trace = [],
       headroom_refreshes = 0 \<rparr>"

subsection \<open>Thermal status\<close>

definition SetThermalStatus :: "int32_t \<Rightarrow> ADPFManager \<Rightarrow> ADPFManager" where
  "SetThermalStatus i s =
     (let prev_status = thermal_status s;
          current_status = i;
          s1 = s\<lparr>thermal_status := i\<rparr>
      in if thermalListener s1 \<noteq> nullptr
         then emit [Listener_invoked (thermalListener s1) prev_status current_status] s1
         else s1)"

definition SetThermalListener :: "ptr \<Rightarrow> ADPFManager \<Rightarrow> ADPFManager" where
  "SetThermalListener listener s = s\<lparr>thermalListener := listener\<rparr>"

definition GetThermalStatus :: "ADPFManager \<Rightarrow> int32_t" where
  "GetThermalStatus s = thermal_status s"

definition GetThermalHeadroom :: "ADPFManager \<Rightarrow> real" where
  "GetThermalHeadroom s = thermal_headroom s"

text \<open>A sequence of \<open>SetThermalStatus\<close> calls, first call first.\<close>

fun SetThermalStatus_calls :: "int32_t list \<Rightarrow> ADPFManager \<Rightarrow> ADPFManager" where
  "SetThermalStatus_calls [] s = s"
| "SetThermalStatus_calls (i # is) s = SetThermalStatus_calls is (SetThermalStatus i s)"

subsection \<open>Initialisation\<close>

text \<open>
  \<open>InitializePowerManager\<close>: with the NDK thermal API (built for API 30 or later, on a
  device of API 31 or later) the manager handle is acquired; otherwise the power
  service is looked up through JNI and the method id of \<^verbatim>\<open>getThermalHeadroom\<close> cached.
  A global reference is the object it refers to.
\<close>

definition InitializePowerManager :: "config \<Rightarrow> platform \<Rightarrow> ADPFManager \<Rightarrow> bool \<times> ADPFManager" where
  "InitializePowerManager cfg p s =
     (if 30 \<le> ANDROID_API cfg \<and> 31 \<le> device_api_level cfg
      then (True, emit [AThermal_acquireManager]
                    (s\<lparr>thermal_manager := AThermal_acquireManager_result p\<rparr>))
      else
        let obj_power_service_local = power_service_object p;
            s1 = emit [JNI_getSystemService ''POWER_SERVICE'',
                       JNI_NewGlobalRef obj_power_service_local]
                   (s\<lparr>obj_power_service := obj_power_service_local\<rparr>);
            s2 = s1\<lparr>get_thermal_headroom := mid_getThermalHeadroom p\<rparr>
        in if get_thermal_headroom s2 = 0 then (False, s2) else (True, s2))"

text \<open>
  \<open>InitializePerformanceHintManager\<close>: built for API 33 or later, the NDK manager and
  a session for the calling thread; otherwise the JNI service, a session created
  through it, and the method ids of the session.
\<close>

definition InitializePerformanceHintManager ::
  "config \<Rightarrow> platform \<Rightarrow> ADPFManager \<Rightarrow> bool \<times> ADPFManager" where
  "InitializePerformanceHintManager cfg p s =
     (if 33 \<le> ANDROID_API cfg then
        let s1 = (if hint_manager s = nullptr
                  then emit [APerformanceHint_getManager]
                         (s\<lparr>hint_manager := APerformanceHint_getManager_result p\<rparr>)
                  else s);
            s2 = (if hint_session s1 = nullptr \<and> hint_manager s1 \<noteq> nullptr
                  then let tid = gettid p;
                           s1a = s1\<lparr>thread_ids := thread_ids s1 @ [tid]\<rparr>
                       in emit [APerformanceHint_createSession (hint_manager s1a) [tid] 1
                                  (last_target s1a)]
                            (s1a\<lparr>hint_session := APerformanceHint_createSession_result p\<rparr>)
                  else s1)
        in (True, s2)
      else
        let obj_perfhint_service_local = perfhint_service_object p;
            s1 = emit [JNI_getSystemService ''PERFORMANCE_HINT_SERVICE'',
                       JNI_NewGlobalRef obj_perfhint_service_local]
                   (s\<lparr>obj_perfhint_service := obj_perfhint_service_local\<rparr>);
            s2 = s1\<lparr>create_hint_session := mid_createHintSession p\<rparr>;
            tid = gettid p;
            s3 = emit [JNI_NewIntArray 1, JNI_SetIntArrayRegion 0 1 [tid],
                       JNI_createHintSession (obj_perfhint_service s2) (create_hint_session s2)
                         [tid] DEFAULT_TARGET_NS] s2;
            obj_hintsession = createHintSession_result p;
            s4 = (if obj_hintsession = nullptr then s3
                  else
                    let s3a = emit [JNI_NewGlobalRef obj_hintsession]
                                (s3\<lparr>obj_perfhint_session := obj_hintsession\<rparr>);
                        s3b = emit [JNI_getPreferredUpdateRateNanos (obj_perfhint_service s3a)]
                                (s3a\<lparr>preferred_update_rate := getPreferredUpdateRateNanos_result p\<rparr>)
                    in s3b\<lparr>report_actual_work_duration := mid_reportActualWorkDuration p,
                            update_target_work_duration := mid_updateTargetWorkDuration p,
                            set_threads := mid_setThreads p\<rparr>)
        in if report_actual_work_duration s4 = 0 \<or> update_target_work_duration s4 = 0
           then (False, s4) else (True, s4))"

definition SetApplication :: "config \<Rightarrow> ptr \<Rightarrow> platform \<Rightarrow> ADPFManager \<Rightarrow> ADPFManager" where
  "SetApplication cfg app_ptr p s =
     (let s1 = s\<lparr>app := app_ptr\<rparr>;
          s2 = snd (InitializePowerManager cfg p s1);
          s3 = snd (InitializePerformanceHintManager cfg p s2)
      in s3)"

subsection \<open>Thermal headroom\<close>

text \<open>
  \<open>UpdateThermalStatusHeadRoom\<close>: the NDK query when built for API 31 or later on a device
  of API 31 or later; otherwise the JNI call, unless the application or the method id is
  missing, in which case 0 is returned and nothing is cached.
\<close>

definition UpdateThermalStatusHeadRoom :: "config \<Rightarrow> platform \<Rightarrow> ADPFManager \<Rightarrow> real \<times> ADPFManager" where
  "UpdateThermalStatusHeadRoom cfg p s0 =
     (let s = s0\<lparr>headroom_refreshes := Suc (headroom_refreshes s0)\<rparr>
      in if 31 \<le> ANDROID_API cfg \<and> 31 \<le> device_api_level cfg then
           let seconds = kThermalHeadroomUpdateThreshold_count;
               s1 = emit [AThermal_getThermalHeadroom (thermal_manager s) seconds]
                      (s\<lparr>thermal_headroom := headroom_result p\<rparr>)
           in (thermal_headroom s1, s1)
         else if app s = nullptr \<or> get_thermal_headroom s = 0 then (0, s)
         else
           let s1 = emit [JNI_getThermalHeadroom (obj_power_service s) (get_thermal_headroom s)
                            kThermalHeadroomUpdateThreshold_count]
                      (s\<lparr>thermal_headroom := headroom_result p\<rparr>)
           in (thermal_headroom s1, s1))"

text \<open>\<open>Monitor\<close>; \<open>now\<close> is what the clock returns.\<close>

definition Monitor :: "config \<Rightarrow> time_point \<Rightarrow> platform \<Rightarrow> ADPFManager \<Rightarrow> ADPFManager" where
  "Monitor cfg now p s =
     (let current_clock = now;
          past = current_clock - last_clock s
      in if kThermalHeadroomUpdateThreshold \<le>s past
         then (snd (UpdateThermalStatusHeadRoom cfg p s))\<lparr>last_clock := current_clock\<rparr>
         else s)"

text \<open>A sequence of \<open>Monitor\<close> calls, each with its clock reading and platform answers.\<close>

fun Monitor_calls :: "config \<Rightarrow> (time_point \<times> platform) list \<Rightarrow> ADPFManager \<Rightarrow> ADPFManager" where
  "Monitor_calls cfg [] s = s"
| "Monitor_calls cfg ((now, p) # cs) s = Monitor_calls cfg cs (Monitor cfg now p s)"

subsection \<open>Performance hint session\<close>

definition BeginPerfHintSession :: "time_point \<Rightarrow> ADPFManager \<Rightarrow> ADPFManager" where
  "BeginPerfHintSession now s = s\<lparr>perf_start := now\<rparr>"

definition EndPerfHintSession :: "config \<Rightarrow> time_point \<Rightarrow> jlong \<Rightarrow> ADPFManager \<Rightarrow> ADPFManager" where
  "EndPerfHintSession cfg now target_duration_ns s =
     (if 33 \<le> ANDROID_API cfg then
        let perf_end = now;
            actual_duration_ns = perf_end - perf_start s
        in emit [APerformanceHint_reportActualWorkDuration (hint_session s) actual_duration_ns,
                 APerformanceHint_updateTargetWorkDuration (hint_session s) target_duration_ns] s
      else if obj_perfhint_session s \<noteq> nullptr then
        let perf_end = now;
            duration_ns = perf_end - perf_start s
        in emit [JNI_CallVoidMethod_long (obj_perfhint_session s) (report_actual_work_duration s)
                   duration_ns,
                 JNI_CallVoidMethod_long (obj_perfhint_session s) (update_target_work_duration s)
                   target_duration_ns] s
      else s)"

text \<open>
  \<open>RegisterThreadIdsToHintSession\<close>, on its three tiers: \<^verbatim>\<open>setThreads\<close> on the session
  (API 34), close and create (API 33), JNI (below 33), where a missing \<^verbatim>\<open>setThreads\<close>
  method id means the session object is replaced, and a present one means the call is
  made and a pending exception is described and cleared.
\<close>

definition RegisterThreadIdsToHintSession :: "config \<Rightarrow> platform \<Rightarrow> ADPFManager \<Rightarrow> ADPFManager" where
  "RegisterThreadIdsToHintSession cfg p s =
     (if 34 \<le> ANDROID_API cfg then
        let data = thread_ids s; size = length (thread_ids s)
        in emit [APerformanceHint_setThreads (hint_session s) data size] s
      else if 33 \<le> ANDROID_API cfg then
        let data = thread_ids s; size = length (thread_ids s);
            s1 = (if hint_session s \<noteq> nullptr
                  then emit [APerformanceHint_closeSession (hint_session s)] s else s)
        in emit [APerformanceHint_createSession (hint_manager s1) data size (last_target s1)]
             (s1\<lparr>hint_session := APerformanceHint_createSession_result p\<rparr>)
      else
        let size = length (thread_ids s); data = thread_ids s;
            s1 = emit [JNI_NewIntArray size, JNI_SetIntArrayRegion 0 size data] s;
            array = data
        in if set_threads s1 = nullptr then
             let s2 = (if obj_perfhint_session s1 \<noteq> nullptr
                       then emit [JNI_DeleteGlobalRef (obj_perfhint_session s1)] s1 else s1);
                 s3 = emit [JNI_createHintSession (obj_perfhint_service s2)
                              (create_hint_session s2) array DEFAULT_TARGET_NS] s2;
                 obj_hintsession = createHintSession_result p
             in emit [JNI_NewGlobalRef obj_hintsession]
                  (s3\<lparr>obj_perfhint_session := obj_hintsession\<rparr>)
           else
             let s2 = emit [JNI_CallVoidMethod_array (obj_perfhint_session s1) (set_threads s1) array]
                        (s1\<lparr>jni_exception_pending :=
                               jni_exception_pending s1 \<or> setThreads_throws p\<rparr>);
                 check = jni_exception_pending s2;
                 s3 = emit [JNI_ExceptionCheck] s2
             in if check
                then emit [JNI_ExceptionDescribe, JNI_ExceptionClear]
                       (s3\<lparr>jni_exception_pending := False\<rparr>)
                else s3)"

definition AddThreadIdToHintSession :: "config \<Rightarrow> int32_t \<Rightarrow> platform \<Rightarrow> ADPFManager \<Rightarrow> ADPFManager" where
  "AddThreadIdToHintSession cfg tid p s =
     RegisterThreadIdsToHintSession cfg p (s\<lparr>thread_ids := thread_ids s @ [tid]\<rparr>)"

definition RemoveThreadIdFromHintSession :: "config \<Rightarrow> int32_t \<Rightarrow> platform \<Rightarrow> ADPFManager \<Rightarrow> ADPFManager" where
  "RemoveThreadIdFromHintSession cfg tid p s =
     RegisterThreadIdsToHintSession cfg p
       (s\<lparr>thread_ids := filter (\<lambda>t. t \<noteq> tid) (thread_ids s)\<rparr>)"

subsection \<open>Teardown\<close>

text \<open>
  The destructor. The release of the thermal manager is compiled under
  \<^verbatim>\<open>#if __ANDROID_API >= 30\<close>, the other blocks under \<^verbatim>\<open>__ANDROID_API__\<close>.
\<close>

definition ADPFManager_dtor :: "config \<Rightarrow> ADPFManager \<Rightarrow> ADPFManager" where
  "ADPFManager_dtor cfg s =
     (if app s \<noteq> nullptr then
        let s1 = (if obj_power_service s \<noteq> nullptr
                  then emit [JNI_DeleteGlobalRef (obj_power_service s)] s else s);
            s2 = (if 30 \<le> ANDROID_API_unsuffixed cfg
                  then (if thermal_manager s1 \<noteq> nullptr
                        then emit [AThermal_releaseManager (thermal_manager s1)] s1 else s1)
                  else s1)
        in if 33 \<le> ANDROID_API cfg then
             (if hint_session s2 \<noteq> nullptr
              then emit [APerformanceHint_closeSession (hint_session s2)] s2 else s2)
           else
             let s3 = (if obj_perfhint_service s2 \<noteq> nullptr
                       then emit [JNI_DeleteGlobalRef (obj_perfhint_service s2)] s2 else s2)
             in if obj_perfhint_session s3 \<noteq> nullptr
                then emit [JNI_DeleteGlobalRef (obj_perfhint_session s3)] s3 else s3
      else s)"

subsection \<open>Reading the trace\<close>

text \<open>The thread ids an event hands to the platform session, if it is a synchronisation.\<close>

fun synchronized_thread_ids :: "event \<Rightarrow> int32_t list option" where
  "synchronized_thread_ids (APerformanceHint_setThreads _ tids _) = Some tids"
| "synchronized_thread_ids (APerformanceHint_createSession _ tids _ _) = Some tids"
| "synchronized_thread_ids (JNI_CallVoidMethod_array _ _ tids) = Some tids"
| "synchronized_thread_ids (JNI_createHintSession _ _ tids _) = Some tids"
| "synchronized_thread_ids _ = None"

text \<open>The thread ids of the last synchronisation in a trace.\<close>

fun last_synchronized :: "event list \<Rightarrow> int32_t list option" where
  "last_synchronized [] = None"
| "last_synchronized (e # es) =
     (case last_synchronized es of
        Some tids \<Rightarrow> Some tids
      | None \<Rightarrow> synchronized_thread_ids e)"

fun is_headroom_query :: "event \<Rightarrow> bool" where
  "is_headroom_query (AThermal_getThermalHeadroom _ _) = True"
| "is_headroom_query (JNI_getThermalHeadroom _ _ _) = True"
| "is_headroom_query _ = False"

definition headroom_queries :: "event list \<Rightarrow> nat" where
  "headroom_queries es = length (filter is_headroom_query es)"

text \<open>The events a call appended: the trace after it, without the trace before it.\<close>

definition appended :: "ADPFManager \<Rightarrow> ADPFManager \<Rightarrow> event list" where
  "appended s s' = drop (length (trace s)) (trace s')"

text \<open>
  \<open>clock_advanced t0 t1\<close>: \<open>t1\<close> is a reading of the clock taken no earlier than \<open>t0\<close>
  (the clock is \<^verbatim>\<open>steady_clock\<close>, which never goes back), and the time between them
  fits the signed 64 bit tick count, so that the subtraction does not overflow.
\<close>

definition clock_advanced :: "time_point \<Rightarrow> time_point \<Rightarrow> bool" where
  "clock_advanced t0 t1 \<longleftrightarrow> sint t0 \<le> sint t1 \<and> sint t1 - sint t0 < 2 ^ 63"

text \<open>
  The condition under which \<open>UpdateThermalStatusHeadRoom\<close> reaches the platform: the
  NDK tier, or the JNI tier with an application and the method id.
\<close>

definition headroom_source_available :: "config \<Rightarrow> ADPFManager \<Rightarrow> bool" where
  "headroom_source_available cfg s \<longleftrightarrow>
     (31 \<le> ANDROID_API cfg \<and> 31 \<le> device_api_level cfg) \<or>
     (app s \<noteq> nullptr \<and> get_thermal_headroom s \<noteq> 0)"

subsection \<open>Concrete builds, platform answers and states\<close>

text \<open>
  A build for API 33 (the session-recreation tier) on a device of API 33, and a build
  for API 31 (the JNI tier of the hint session) on a device of API 34.
\<close>

definition build_api33 :: config where
  "build_api33 = \<lparr>ANDROID_API = 33, ANDROID_API_unsuffixed = 0, device_api_level = 33\<rparr>"

definition build_api31 :: config where
  "build_api31 = \<lparr>ANDROID_API = 31, ANDROID_API_unsuffixed = 0, device_api_level = 34\<rparr>"

text \<open>A platform on which every request succeeds; the calling thread is 100.\<close>

definition platform_answers :: platform where
  "platform_answers =
     \<lparr> gettid = 100,
       AThermal_acquireManager_result = 20,
       headroom_result = 1 / 2,
       APerformanceHint_getManager_result = 10,
       APerformanceHint_createSession_result = 11,
       power_service_object = 30,
       mid_getThermalHeadroom = 31,
       perfhint_service_object = 40,
       mid_createHintSession = 41,
       createHintSession_result = 42,
       getPreferredUpdateRateNanos_result = 1000000,
       mid_reportActualWorkDuration = 43,
       mid_updateTargetWorkDuration = 44,
       mid_setThreads = 45,
       setThreads_throws = False \<rparr>"

text \<open>A platform without a performance hint manager, and one whose \<^verbatim>\<open>setThreads\<close> throws.\<close>

definition platform_without_hint_manager :: platform where
  "platform_without_hint_manager =
     platform_answers\<lparr>APerformanceHint_getManager_result := nullptr\<rparr>"

definition platform_setThreads_throws :: platform where
  "platform_setThreads_throws = platform_answers\<lparr>setThreads_throws := True\<rparr>"

text \<open>The coordinator after construction at time 0 and \<open>SetApplication\<close>.\<close>

definition started_api33 :: ADPFManager where
  "started_api33 = SetApplication build_api33 1 platform_answers (ADPFManager_ctor 0)"

definition started_api31 :: ADPFManager where
  "started_api31 = SetApplication build_api31 1 platform_answers (ADPFManager_ctor 0)"

definition degraded_api33 :: ADPFManager where
  "degraded_api33 =
     SetApplication build_api33 1 platform_without_hint_manager (ADPFManager_ctor 0)"

section \<open>Properties\<close>

lemmas op_defs = emit_def Let_def

lemmas init_defs = SetApplication_def InitializePowerManager_def
  InitializePerformanceHintManager_def ADPFManager_ctor_def platform_answers_def
  DEFAULT_TARGET_NS_def emit_def Let_def

lemmas eval_defs = started_api33_def started_api31_def degraded_api33_def
  build_api33_def build_api31_def platform_without_hint_manager_def
  platform_setThreads_throws_def init_defs

lemmas run_defs = Monitor_def UpdateThermalStatusHeadRoom_def
  kThermalHeadroomUpdateThreshold_def kThermalHeadroomUpdateThreshold_count_def
  clock_advanced_def word_sle_eq

subsection \<open>Thermal status and its listener\<close>

lemma SetThermalStatus_listener: "thermalListener (SetThermalStatus i s) = thermalListener s"
  by (simp add: SetThermalStatus_def op_defs)

lemma SetThermalStatus_status: "thermal_status (SetThermalStatus i s) = i"
  by (simp add: SetThermalStatus_def op_defs)

lemma SetThermalStatus_trace:
  "trace (SetThermalStatus i s) =
     trace s @ (if thermalListener s = nullptr then []
                else [Listener_invoked (thermalListener s) (thermal_status s) i])"
  by (simp add: SetThermalStatus_def op_defs)

text \<open>
  Claim C1. After any sequence of \<open>SetThermalStatus\<close> calls, \<open>GetThermalStatus\<close> returns
  the value set last (the initial one when the sequence is empty). The calls append to
  the trace exactly one listener invocation each when a listener is registered, and
  nothing otherwise; the invocation of a call carries the status cached before the
  call and the value the call sets, with no test whether the two differ.
\<close>

theorem SetThermalStatus_sequence:
  "GetThermalStatus (SetThermalStatus_calls is s) = last (thermal_status s # is) \<and>
   trace (SetThermalStatus_calls is s) =
     trace s @ (if thermalListener s = nullptr then []
                else map (\<lambda>(previous, current).
                            Listener_invoked (thermalListener s) previous current)
                       (zip (thermal_status s # is) is))"
proof (induction "is" arbitrary: s)
  case Nil
  show ?case by (simp add: GetThermalStatus_def)
next
  case (Cons i "is")
  show ?case
    using Cons.IH [of "SetThermalStatus i s"]
    by (simp add: SetThermalStatus_listener SetThermalStatus_status SetThermalStatus_trace
        GetThermalStatus_def)
qed

text \<open>Listener 5, statuses 2, 2, 3: three invocations, the second with equal values.\<close>

theorem SetThermalStatus_sequence_witness:
  "GetThermalStatus
     (SetThermalStatus_calls [2, 2, 3] (SetThermalListener 5 (ADPFManager_ctor 0))) = 3 \<and>
   trace (SetThermalStatus_calls [2, 2, 3] (SetThermalListener 5 (ADPFManager_ctor 0))) =
     [Listener_invoked 5 0 2, Listener_invoked 5 2 2, Listener_invoked 5 2 3]"
  using SetThermalStatus_sequence [of "[2, 2, 3]" "SetThermalListener 5 (ADPFManager_ctor 0)"]
  by (simp add: SetThermalListener_def ADPFManager_ctor_def)

subsection \<open>The rate limit of Monitor\<close>

lemma sint_elapsed:
  fixes t0 t1 :: "64 word"
  assumes "clock_advanced t0 t1"
  shows "sint (t1 - t0) = sint t1 - sint t0"
proof -
  from assms have "- (2 ^ 63) \<le> sint t1 - sint t0" "sint t1 - sint t0 < 2 ^ 63"
    by (simp_all add: clock_advanced_def)
  then show ?thesis
    by (simp add: sint_word_ariths signed_take_bit_int_eq_self)
qed

lemma Update_frame:
  "snd (UpdateThermalStatusHeadRoom cfg p s) =
     s\<lparr>thermal_headroom := thermal_headroom (snd (UpdateThermalStatusHeadRoom cfg p s)),
       trace := trace (snd (UpdateThermalStatusHeadRoom cfg p s)),
       headroom_refreshes := headroom_refreshes (snd (UpdateThermalStatusHeadRoom cfg p s))\<rparr>"
  by (simp add: UpdateThermalStatusHeadRoom_def op_defs)

lemma Update_refreshes:
  "headroom_refreshes (snd (UpdateThermalStatusHeadRoom cfg p s)) = Suc (headroom_refreshes s)"
  by (simp add: UpdateThermalStatusHeadRoom_def op_defs)

lemma Update_queries:
  "headroom_queries (trace (snd (UpdateThermalStatusHeadRoom cfg p s))) \<le>
     Suc (headroom_queries (trace s))"
  by (simp add: UpdateThermalStatusHeadRoom_def headroom_queries_def op_defs)

lemma Update_queries_available:
  "headroom_source_available cfg s \<Longrightarrow>
   headroom_queries (trace (snd (UpdateThermalStatusHeadRoom cfg p s))) =
     Suc (headroom_queries (trace s))"
  by (auto simp add: UpdateThermalStatusHeadRoom_def headroom_queries_def
      headroom_source_available_def op_defs)

lemma due_iff:
  assumes "clock_advanced (last_clock s) now"
  shows "kThermalHeadroomUpdateThreshold \<le>s now - last_clock s \<longleftrightarrow>
         1000000000 \<le> sint now - sint (last_clock s)"
  using sint_elapsed [OF assms]
  by (simp add: word_sle_eq kThermalHeadroomUpdateThreshold_def)

lemma Monitor_not_due:
  assumes "clock_advanced (last_clock s) now" "sint now - sint (last_clock s) < 1000000000"
  shows "Monitor cfg now p s = s"
  using assms due_iff [OF assms(1)] by (simp add: Monitor_def Let_def)

lemma Monitor_due:
  assumes "clock_advanced (last_clock s) now" "1000000000 \<le> sint now - sint (last_clock s)"
  shows "Monitor cfg now p s = (snd (UpdateThermalStatusHeadRoom cfg p s))\<lparr>last_clock := now\<rparr>"
  using assms due_iff [OF assms(1)] by (simp add: Monitor_def Let_def)

text \<open>One call either changes nothing, or refreshes once and restarts the clock.\<close>

lemma Monitor_step:
  "(Monitor cfg now p s = s) \<or>
   (last_clock (Monitor cfg now p s) = now \<and>
    headroom_refreshes (Monitor cfg now p s) = Suc (headroom_refreshes s) \<and>
    headroom_queries (trace (Monitor cfg now p s)) \<le> Suc (headroom_queries (trace s)))"
  using Update_refreshes [of cfg p s] Update_queries [of cfg p s]
  by (simp add: Monitor_def Let_def)

text \<open>Calls that all come less than the threshold after the last refresh change nothing.\<close>

lemma Monitor_calls_idle:
  assumes "\<forall>t \<in> set (map fst cs). clock_advanced (last_clock s) t \<and>
             sint t - sint (last_clock s) < 1000000000"
  shows "Monitor_calls cfg cs s = s"
  using assms
proof (induction cs)
  case Nil
  show ?case by simp
next
  case (Cons c cs)
  obtain now p where c: "c = (now, p)" by (cases c)
  have "Monitor cfg now p s = s"
    using Cons.prems c by (intro Monitor_not_due) simp_all
  with Cons show ?case by (simp add: c)
qed

text \<open>
  Calls within a window shorter than the threshold: the first call that refreshes, if
  any, restarts the clock inside the window, so that the calls after it are idle.
\<close>

lemma Monitor_calls_window:
  assumes "sorted_wrt clock_advanced (last_clock s # map fst cs)"
    and "\<forall>t \<in> set (map fst cs). \<forall>t' \<in> set (map fst cs). sint t' - sint t < 1000000000"
  shows "headroom_refreshes (Monitor_calls cfg cs s) \<le> Suc (headroom_refreshes s) \<and>
         headroom_queries (trace (Monitor_calls cfg cs s)) \<le> Suc (headroom_queries (trace s))"
  using assms
proof (induction cs arbitrary: s)
  case Nil
  show ?case by simp
next
  case (Cons c cs)
  obtain now p where c: "c = (now, p)" by (cases c)
  let ?s1 = "Monitor cfg now p s"
  consider (idle) "?s1 = s"
    | (fresh) "last_clock ?s1 = now"
        "headroom_refreshes ?s1 = Suc (headroom_refreshes s)"
        "headroom_queries (trace ?s1) \<le> Suc (headroom_queries (trace s))"
    using Monitor_step [of cfg now p s] by blast
  then show ?case
  proof cases
    case idle
    have "sorted_wrt clock_advanced (last_clock s # map fst cs)"
      using Cons.prems(1) by (simp add: c)
    moreover have "\<forall>t \<in> set (map fst cs). \<forall>t' \<in> set (map fst cs). sint t' - sint t < 1000000000"
      using Cons.prems(2) by simp
    ultimately show ?thesis
      using Cons.IH [of s] idle by (simp add: c)
  next
    case fresh
    have "\<forall>t \<in> set (map fst cs). clock_advanced (last_clock ?s1) t \<and>
            sint t - sint (last_clock ?s1) < 1000000000"
      using Cons.prems fresh(1) by (simp add: c)
    then have "Monitor_calls cfg cs ?s1 = ?s1"
      by (rule Monitor_calls_idle)
    then show ?thesis
      using fresh by (simp add: c)
  qed
qed

text \<open>
  Claim C4. Let \<open>Monitor\<close> be called at the clock readings of \<open>cs\<close>, taken in order after
  the last refresh, any two of them less than the threshold of one second apart. Then
  \<open>UpdateThermalStatusHeadRoom\<close> is entered at most once during these calls, and at most
  one headroom query reaches the platform. A further call at a reading \<open>now\<close> at least
  the threshold after the last refresh enters it exactly once more (with exactly one
  more platform query when a headroom source is available, and never more than one)
  and restarts the clock at \<open>now\<close>. A call less than the threshold after the last
  refresh leaves the coordinator as it is.
\<close>

theorem Monitor_rate_limit:
  assumes mono: "sorted_wrt clock_advanced (last_clock s # map fst cs)"
    and window: "\<forall>t \<in> set (map fst cs). \<forall>t' \<in> set (map fst cs).
                   sint t' - sint t < sint kThermalHeadroomUpdateThreshold"
    and later: "clock_advanced (last_clock (Monitor_calls cfg cs s)) now"
    and elapsed: "sint kThermalHeadroomUpdateThreshold \<le>
                    sint now - sint (last_clock (Monitor_calls cfg cs s))"
  shows "headroom_refreshes (Monitor_calls cfg cs s) \<le> headroom_refreshes s + 1 \<and>
         headroom_queries (trace (Monitor_calls cfg cs s)) \<le> headroom_queries (trace s) + 1 \<and>
         headroom_refreshes (Monitor cfg now p (Monitor_calls cfg cs s)) =
           headroom_refreshes (Monitor_calls cfg cs s) + 1 \<and>
         headroom_queries (trace (Monitor cfg now p (Monitor_calls cfg cs s))) \<le>
           headroom_queries (trace (Monitor_calls cfg cs s)) + 1 \<and>
         (headroom_source_available cfg (Monitor_calls cfg cs s) \<longrightarrow>
            headroom_queries (trace (Monitor cfg now p (Monitor_calls cfg cs s))) =
              headroom_queries (trace (Monitor_calls cfg cs s)) + 1) \<and>
         last_clock (Monitor cfg now p (Monitor_calls cfg cs s)) = now \<and>
         (clock_advanced (last_clock s) t \<and>
          sint t - sint (last_clock s) < sint kThermalHeadroomUpdateThreshold \<longrightarrow>
            Monitor cfg t p' s = s)"
proof -
  let ?s' = "Monitor_calls cfg cs s"
  have T: "sint kThermalHeadroomUpdateThreshold = 1000000000"
    by (simp add: kThermalHeadroomUpdateThreshold_def)
  have w: "headroom_refreshes ?s' \<le> Suc (headroom_refreshes s) \<and>
           headroom_queries (trace ?s') \<le> Suc (headroom_queries (trace s))"
    using mono window unfolding T by (rule Monitor_calls_window)
  have d: "Monitor cfg now p ?s' = (snd (UpdateThermalStatusHeadRoom cfg p ?s'))\<lparr>last_clock := now\<rparr>"
    using later elapsed unfolding T by (rule Monitor_due)
  have idle: "clock_advanced (last_clock s) t \<and>
          sint t - sint (last_clock s) < sint kThermalHeadroomUpdateThreshold \<longrightarrow>
            Monitor cfg t p' s = s"
    unfolding T using Monitor_not_due [of s t cfg p'] by blast
  show ?thesis
    using w idle Update_refreshes [of cfg p ?s'] Update_queries [of cfg p ?s']
      Update_queries_available [of cfg ?s' p]
    unfolding d by simp
qed

text \<open>
  Constructed at 0; calls at 0.1 s, 0.6 s and 1.05 s (the third refreshes), then a call
  at 2.1 s, which refreshes again; a single call at 0.6 s changes nothing.
\<close>

theorem Monitor_rate_limit_witness:
  "headroom_refreshes
     (Monitor_calls build_api33
        [(100000000, platform_answers), (600000000, platform_answers),
         (1050000000, platform_answers)] started_api33) = 1 \<and>
   headroom_refreshes
     (Monitor build_api33 2100000000 platform_answers
        (Monitor_calls build_api33
           [(100000000, platform_answers), (600000000, platform_answers),
            (1050000000, platform_answers)] started_api33)) = 2 \<and>
   headroom_queries (trace
     (Monitor build_api33 2100000000 platform_answers
        (Monitor_calls build_api33
           [(100000000, platform_answers), (600000000, platform_answers),
            (1050000000, platform_answers)] started_api33))) = 2 \<and>
   Monitor build_api33 600000000 platform_answers started_api33 = started_api33"
  using Monitor_rate_limit [of started_api33
      "[(100000000, platform_answers), (600000000, platform_answers),
        (1050000000, platform_answers)]" build_api33 2100000000 platform_answers
      600000000 platform_answers]
  by (simp add: run_defs eval_defs headroom_queries_def)

subsection \<open>What Monitor leaves alone\<close>

lemma Monitor_frame:
  "Monitor cfg now p s =
     s\<lparr>thermal_headroom := thermal_headroom (Monitor cfg now p s),
       last_clock := last_clock (Monitor cfg now p s),
       trace := trace (Monitor cfg now p s),
       headroom_refreshes := headroom_refreshes (Monitor cfg now p s)\<rparr>"
proof (cases "kThermalHeadroomUpdateThreshold \<le>s now - last_clock s")
  case True
  then have m: "Monitor cfg now p s = (snd (UpdateThermalStatusHeadRoom cfg p s))\<lparr>last_clock := now\<rparr>"
    by (simp add: Monitor_def Let_def)
  show ?thesis
    unfolding m by (subst Update_frame) simp
next
  case False
  then show ?thesis by (simp add: Monitor_def Let_def)
qed

lemma Monitor_untouched:
  "thermal_status (Monitor cfg now p s) = thermal_status s"
  "thermalListener (Monitor cfg now p s) = thermalListener s"
  "thread_ids (Monitor cfg now p s) = thread_ids s"
  by (subst Monitor_frame, simp)+

lemma Monitor_calls_untouched:
  "thermal_status (Monitor_calls cfg cs s) = thermal_status s \<and>
   thermalListener (Monitor_calls cfg cs s) = thermalListener s \<and>
   thread_ids (Monitor_calls cfg cs s) = thread_ids s"
  by (induction cfg cs s rule: Monitor_calls.induct) (simp_all add: Monitor_untouched)

text \<open>
  Claim C10. A call of \<open>Monitor\<close>, due or not, returns the coordinator it was given with
  at most the cached headroom and the rate-limit clock changed (and, beside the object,
  the trace and the refresh counter). In particular the cached status, the listener
  and the thread ids are the same after any sequence of \<open>Monitor\<close> calls, whereas
  \<open>SetThermalStatus\<close> stores the status it is given.
\<close>

theorem Monitor_changes_headroom_and_clock_only:
  "Monitor cfg now p s =
     s\<lparr>thermal_headroom := thermal_headroom (Monitor cfg now p s),
       last_clock := last_clock (Monitor cfg now p s),
       trace := trace (Monitor cfg now p s),
       headroom_refreshes := headroom_refreshes (Monitor cfg now p s)\<rparr> \<and>
   thermal_status (Monitor_calls cfg cs s) = thermal_status s \<and>
   thermalListener (Monitor_calls cfg cs s) = thermalListener s \<and>
   thread_ids (Monitor_calls cfg cs s) = thread_ids s \<and>
   thermal_status (SetThermalStatus i s) = i"
  using Monitor_frame [of cfg now p s] Monitor_calls_untouched [of cfg cs s]
  by (simp add: SetThermalStatus_def op_defs)

text \<open>
  Status 3 pushed and thread 200 added; a due call at 1.5 s then keeps status, listener
  and thread ids, and caches the headroom the platform answers.
\<close>

theorem Monitor_changes_headroom_and_clock_only_witness:
  "thermal_status
     (Monitor_calls build_api33 [(1500000000, platform_answers)]
        (SetThermalStatus 3 (AddThreadIdToHintSession build_api33 200 platform_answers
           (SetThermalListener 5 started_api33)))) = 3 \<and>
   thermalListener
     (Monitor_calls build_api33 [(1500000000, platform_answers)]
        (SetThermalStatus 3 (AddThreadIdToHintSession build_api33 200 platform_answers
           (SetThermalListener 5 started_api33)))) = 5 \<and>
   thread_ids
     (Monitor_calls build_api33 [(1500000000, platform_answers)]
        (SetThermalStatus 3 (AddThreadIdToHintSession build_api33 200 platform_answers
           (SetThermalListener 5 started_api33)))) = [100, 200] \<and>
   thermal_headroom
     (Monitor_calls build_api33 [(1500000000, platform_answers)]
        (SetThermalStatus 3 (AddThreadIdToHintSession build_api33 200 platform_answers
           (SetThermalListener 5 started_api33)))) = 1 / 2"
  using Monitor_changes_headroom_and_clock_only [of build_api33 1500000000 platform_answers
      "SetThermalStatus 3 (AddThreadIdToHintSession build_api33 200 platform_answers
         (SetThermalListener 5 started_api33))" "[(1500000000, platform_answers)]" 3]
  by (simp add: run_defs eval_defs SetThermalStatus_def SetThermalListener_def
      AddThreadIdToHintSession_def RegisterThreadIdsToHintSession_def)

subsection \<open>Reporting a frame\<close>

text \<open>
  Claim C7. When the clock reading \<open>t1\<close> of \<open>EndPerfHintSession\<close> is not earlier than
  the reading \<open>t0\<close> of the preceding \<open>BeginPerfHintSession\<close>, and a session exists, the
  two calls append exactly two events: the report of the actual duration \<open>t1 - t0\<close>,
  which is not negative, to the session, followed by the update of the session's
  target duration to the value passed.
\<close>

theorem Begin_End_reports_elapsed_and_target:
  assumes clock: "clock_advanced t0 t1"
    and live: "if 33 \<le> ANDROID_API cfg then hint_session s \<noteq> nullptr
               else obj_perfhint_session s \<noteq> nullptr"
  shows "0 \<le> sint (t1 - t0) \<and>
         sint (t1 - t0) = sint t1 - sint t0 \<and>
         appended s (EndPerfHintSession cfg t1 targetNs (BeginPerfHintSession t0 s)) =
           (if 33 \<le> ANDROID_API cfg
            then [APerformanceHint_reportActualWorkDuration (hint_session s) (t1 - t0),
                  APerformanceHint_updateTargetWorkDuration (hint_session s) targetNs]
            else [JNI_CallVoidMethod_long (obj_perfhint_session s)
                    (report_actual_work_duration s) (t1 - t0),
                  JNI_CallVoidMethod_long (obj_perfhint_session s)
                    (update_target_work_duration s) targetNs])"
proof -
  have "0 \<le> sint (t1 - t0)" "sint (t1 - t0) = sint t1 - sint t0"
    using clock sint_elapsed [OF clock] by (simp_all add: clock_advanced_def)
  moreover have "appended s (EndPerfHintSession cfg t1 targetNs (BeginPerfHintSession t0 s)) =
           (if 33 \<le> ANDROID_API cfg
            then [APerformanceHint_reportActualWorkDuration (hint_session s) (t1 - t0),
                  APerformanceHint_updateTargetWorkDuration (hint_session s) targetNs]
            else [JNI_CallVoidMethod_long (obj_perfhint_session s)
                    (report_actual_work_duration s) (t1 - t0),
                  JNI_CallVoidMethod_long (obj_perfhint_session s)
                    (update_target_work_duration s) targetNs])"
    using live
    by (simp add: appended_def EndPerfHintSession_def BeginPerfHintSession_def op_defs)
  ultimately show ?thesis by simp
qed

text \<open>A frame from 5 ms to 9 ms with target 8333333 ns, on the NDK and on the JNI tier.\<close>

theorem Begin_End_reports_elapsed_and_target_witness:
  "appended started_api33
     (EndPerfHintSession build_api33 9000000 8333333
        (BeginPerfHintSession 5000000 started_api33)) =
     [APerformanceHint_reportActualWorkDuration 11 4000000,
      APerformanceHint_updateTargetWorkDuration 11 8333333] \<and>
   appended started_api31
     (EndPerfHintSession build_api31 9000000 8333333
        (BeginPerfHintSession 5000000 started_api31)) =
     [JNI_CallVoidMethod_long 42 43 4000000, JNI_CallVoidMethod_long 42 44 8333333]"
  using Begin_End_reports_elapsed_and_target
      [of 5000000 9000000 build_api33 started_api33 8333333]
    Begin_End_reports_elapsed_and_target
      [of 5000000 9000000 build_api31 started_api31 8333333]
  by (simp add: clock_advanced_def eval_defs)

text \<open>
  Built for API 33 or later, \<open>EndPerfHintSession\<close> makes its two calls whatever the
  session handle is.
\<close>

lemma EndPerfHintSession_ndk_unconditional:
  "33 \<le> ANDROID_API cfg \<Longrightarrow>
   appended s (EndPerfHintSession cfg now target_duration_ns s) =
     [APerformanceHint_reportActualWorkDuration (hint_session s) (now - perf_start s),
      APerformanceHint_updateTargetWorkDuration (hint_session s) target_duration_ns]"
  by (simp add: appended_def EndPerfHintSession_def op_defs)

text \<open>On the JNI tier, \<open>EndPerfHintSession\<close> without a session object changes nothing.\<close>

lemma EndPerfHintSession_reflective_no_session:
  "ANDROID_API cfg < 33 \<Longrightarrow> obj_perfhint_session s = nullptr \<Longrightarrow>
   EndPerfHintSession cfg now target_duration_ns s = s"
  by (simp add: EndPerfHintSession_def)

text \<open>
  Claim C2. The claim asks that \<open>EndPerfHintSession\<close> make no platform call when no
  session exists. Built for API 33 or later, on a platform that has no performance hint
  manager, \<open>SetApplication\<close> leaves the session null, and \<open>EndPerfHintSession\<close> still calls
  \<^verbatim>\<open>APerformanceHint_reportActualWorkDuration\<close> and
  \<^verbatim>\<open>APerformanceHint_updateTargetWorkDuration\<close>, with the null session.
\<close>

theorem EndPerfHintSession_calls_platform_with_null_session:
  "hint_session degraded_api33 = nullptr \<and>
   appended degraded_api33 (EndPerfHintSession build_api33 5000 16666666 degraded_api33) =
     [APerformanceHint_reportActualWorkDuration nullptr 5000,
      APerformanceHint_updateTargetWorkDuration nullptr 16666666]"
  by (simp add: appended_def EndPerfHintSession_def eval_defs)

subsection \<open>Thread ids and their synchronisation\<close>

lemma Register_thread_ids:
  "thread_ids (RegisterThreadIdsToHintSession cfg p s) = thread_ids s"
  by (simp add: RegisterThreadIdsToHintSession_def op_defs)

lemma Register_synchronizes:
  "last_synchronized (appended s (RegisterThreadIdsToHintSession cfg p s)) = Some (thread_ids s)"
  by (simp add: RegisterThreadIdsToHintSession_def appended_def op_defs)

lemma appended_thread_ids_update:
  "appended (s\<lparr>thread_ids := tids\<rparr>) s' = appended s s'"
  by (simp add: appended_def)

lemma Register_recreation:
  "ANDROID_API cfg = 33 \<Longrightarrow> hint_session s \<noteq> nullptr \<Longrightarrow>
   appended s (RegisterThreadIdsToHintSession cfg p s) =
     [APerformanceHint_closeSession (hint_session s),
      APerformanceHint_createSession (hint_manager s) (thread_ids s) (length (thread_ids s))
        (last_target s)]"
  by (simp add: RegisterThreadIdsToHintSession_def appended_def op_defs)

lemma Register_reflective_setThreads:
  "ANDROID_API cfg < 33 \<Longrightarrow> set_threads s \<noteq> nullptr \<Longrightarrow>
   jni_exception_pending (RegisterThreadIdsToHintSession cfg p s) = False \<and>
   appended s (RegisterThreadIdsToHintSession cfg p s) =
     [JNI_NewIntArray (length (thread_ids s)),
      JNI_SetIntArrayRegion 0 (length (thread_ids s)) (thread_ids s),
      JNI_CallVoidMethod_array (obj_perfhint_session s) (set_threads s) (thread_ids s),
      JNI_ExceptionCheck] @
     (if jni_exception_pending s \<or> setThreads_throws p
      then [JNI_ExceptionDescribe, JNI_ExceptionClear] else [])"
  by (simp add: RegisterThreadIdsToHintSession_def appended_def op_defs)

lemma Add_thread_ids:
  "thread_ids (AddThreadIdToHintSession cfg x p s) = thread_ids s @ [x]"
  by (simp add: AddThreadIdToHintSession_def Register_thread_ids)

lemma Remove_thread_ids:
  "thread_ids (RemoveThreadIdFromHintSession cfg x p s) = filter (\<lambda>t. t \<noteq> x) (thread_ids s)"
  by (simp add: RemoveThreadIdFromHintSession_def Register_thread_ids)

lemma Add_synchronizes:
  "last_synchronized (appended s (AddThreadIdToHintSession cfg x p s)) =
     Some (thread_ids s @ [x])"
  using Register_synchronizes [of "s\<lparr>thread_ids := thread_ids s @ [x]\<rparr>" cfg p]
  by (simp add: AddThreadIdToHintSession_def appended_thread_ids_update)

lemma Remove_synchronizes:
  "last_synchronized (appended s (RemoveThreadIdFromHintSession cfg x p s)) =
     Some (filter (\<lambda>t. t \<noteq> x) (thread_ids s))"
  using Register_synchronizes [of "s\<lparr>thread_ids := filter (\<lambda>t. t \<noteq> x) (thread_ids s)\<rparr>" cfg p]
  by (simp add: RemoveThreadIdFromHintSession_def appended_thread_ids_update)

text \<open>
  Claim C5, as stated, fails when the thread id is already in the list: after
  \<open>SetApplication\<close> on the API 33 build the list is \<open>[100]\<close>; adding 100 and removing 100
  erases both occurrences, and the last synchronisation hands the platform the empty
  list.
\<close>

theorem Add_Remove_present_id_counterexample:
  "thread_ids started_api33 = [100] \<and>
   last_synchronized
     (appended (AddThreadIdToHintSession build_api33 100 platform_answers started_api33)
        (RemoveThreadIdFromHintSession build_api33 100 platform_answers
           (AddThreadIdToHintSession build_api33 100 platform_answers started_api33))) = Some [] \<and>
   set (thread_ids (RemoveThreadIdFromHintSession build_api33 100 platform_answers
           (AddThreadIdToHintSession build_api33 100 platform_answers started_api33))) \<noteq>
     set (thread_ids started_api33)"
  by (simp add: appended_def AddThreadIdToHintSession_def RemoveThreadIdFromHintSession_def
      RegisterThreadIdsToHintSession_def eval_defs)

text \<open>
  Claim C5, amended. In every state, \<open>AddThreadIdToHintSession\<close> appends the id and
  \<open>RemoveThreadIdFromHintSession\<close> erases every occurrence of it, and each of the two
  calls then hands the whole resulting list to the platform. For a list that does not
  contain \<open>x\<close>, adding \<open>x\<close> and then removing it synchronises the original list, in its
  order; and adding \<open>x\<close>, adding another id \<open>y\<close> and removing \<open>x\<close> synchronises the
  original list followed by \<open>y\<close>.
\<close>

theorem Add_then_Remove_restores:
  "thread_ids (AddThreadIdToHintSession cfg x p s) = thread_ids s @ [x] \<and>
   last_synchronized (appended s (AddThreadIdToHintSession cfg x p s)) =
     Some (thread_ids s @ [x]) \<and>
   thread_ids (RemoveThreadIdFromHintSession cfg x q s) =
     filter (\<lambda>t. t \<noteq> x) (thread_ids s) \<and>
   last_synchronized (appended s (RemoveThreadIdFromHintSession cfg x q s)) =
     Some (filter (\<lambda>t. t \<noteq> x) (thread_ids s)) \<and>
   (x \<notin> set (thread_ids s) \<longrightarrow>
      thread_ids (RemoveThreadIdFromHintSession cfg x q (AddThreadIdToHintSession cfg x p s)) =
        thread_ids s \<and>
      last_synchronized
        (appended (AddThreadIdToHintSession cfg x p s)
           (RemoveThreadIdFromHintSession cfg x q (AddThreadIdToHintSession cfg x p s))) =
        Some (thread_ids s) \<and>
      (y \<noteq> x \<longrightarrow>
         last_synchronized
           (appended (AddThreadIdToHintSession cfg y r (AddThreadIdToHintSession cfg x p s))
              (RemoveThreadIdFromHintSession cfg x q
                 (AddThreadIdToHintSession cfg y r (AddThreadIdToHintSession cfg x p s)))) =
           Some (thread_ids s @ [y])))"
proof -
  have always:
    "thread_ids (AddThreadIdToHintSession cfg x p s) = thread_ids s @ [x]"
    "last_synchronized (appended s (AddThreadIdToHintSession cfg x p s)) =
       Some (thread_ids s @ [x])"
    "thread_ids (RemoveThreadIdFromHintSession cfg x q s) =
       filter (\<lambda>t. t \<noteq> x) (thread_ids s)"
    "last_synchronized (appended s (RemoveThreadIdFromHintSession cfg x q s)) =
       Some (filter (\<lambda>t. t \<noteq> x) (thread_ids s))"
    by (simp_all add: Add_thread_ids Remove_thread_ids Add_synchronizes Remove_synchronizes)
  have restored: "thread_ids
        (RemoveThreadIdFromHintSession cfg x q (AddThreadIdToHintSession cfg x p s)) =
        thread_ids s \<and>
      last_synchronized
        (appended (AddThreadIdToHintSession cfg x p s)
           (RemoveThreadIdFromHintSession cfg x q (AddThreadIdToHintSession cfg x p s))) =
        Some (thread_ids s) \<and>
      (y \<noteq> x \<longrightarrow>
         last_synchronized
           (appended (AddThreadIdToHintSession cfg y r (AddThreadIdToHintSession cfg x p s))
              (RemoveThreadIdFromHintSession cfg x q
                 (AddThreadIdToHintSession cfg y r (AddThreadIdToHintSession cfg x p s)))) =
           Some (thread_ids s @ [y]))"
    if fresh: "x \<notin> set (thread_ids s)"
  proof -
    have same: "filter (\<lambda>t. t \<noteq> x) (thread_ids s) = thread_ids s"
      using fresh by (auto simp: filter_id_conv)
    show ?thesis
      by (simp add: Add_thread_ids Remove_thread_ids Remove_synchronizes same)
  qed
  show ?thesis
    using always restored by blast
qed

text \<open>
  On the API 33 build after \<open>SetApplication\<close>, where the list is \<open>[100]\<close>: adding and
  removing 200 synchronises \<open>[100]\<close>; adding 200, adding 300 and removing 200
  synchronises \<open>[100, 300]\<close>; and after 100 is added a second time, removing 100 erases
  both occurrences. On the API 31 build after \<open>SetApplication\<close>, where the list is empty:
  add 100, add 200, remove 100 synchronises \<open>[200]\<close>.
\<close>

theorem Add_then_Remove_restores_witness:
  "last_synchronized
     (appended (AddThreadIdToHintSession build_api33 200 platform_answers started_api33)
        (RemoveThreadIdFromHintSession build_api33 200 platform_answers
           (AddThreadIdToHintSession build_api33 200 platform_answers started_api33))) =
     Some [100] \<and>
   last_synchronized
     (appended
        (AddThreadIdToHintSession build_api33 300 platform_answers
           (AddThreadIdToHintSession build_api33 200 platform_answers started_api33))
        (RemoveThreadIdFromHintSession build_api33 200 platform_answers
           (AddThreadIdToHintSession build_api33 300 platform_answers
              (AddThreadIdToHintSession build_api33 200 platform_answers started_api33)))) =
     Some [100, 300] \<and>
   thread_ids (AddThreadIdToHintSession build_api33 100 platform_answers started_api33) =
     [100, 100] \<and>
   thread_ids
     (RemoveThreadIdFromHintSession build_api33 100 platform_answers
        (AddThreadIdToHintSession build_api33 100 platform_answers started_api33)) = [] \<and>
   thread_ids started_api31 = [] \<and>
   last_synchronized
     (appended
        (AddThreadIdToHintSession build_api31 200 platform_answers
           (AddThreadIdToHintSession build_api31 100 platform_answers started_api31))
        (RemoveThreadIdFromHintSession build_api31 100 platform_answers
           (AddThreadIdToHintSession build_api31 200 platform_answers
              (AddThreadIdToHintSession build_api31 100 platform_answers started_api31)))) =
     Some [200]"
  using Add_then_Remove_restores [where cfg = build_api33 and x = 200 and y = 300
      and s = started_api33 and p = platform_answers and q = platform_answers
      and r = platform_answers]
    Add_then_Remove_restores [where cfg = build_api33 and x = 100 and y = 100
      and s = started_api33 and p = platform_answers and q = platform_answers
      and r = platform_answers]
    Add_then_Remove_restores [where cfg = build_api33 and x = 100 and y = 100
      and s = "AddThreadIdToHintSession build_api33 100 platform_answers started_api33"
      and p = platform_answers and q = platform_answers and r = platform_answers]
    Add_then_Remove_restores [where cfg = build_api31 and x = 100 and y = 200
      and s = started_api31 and p = platform_answers and q = platform_answers
      and r = platform_answers]
  by (simp add: eval_defs)

lemma Remove_recreation:
  "ANDROID_API cfg = 33 \<Longrightarrow> hint_session s \<noteq> nullptr \<Longrightarrow>
   appended s (RemoveThreadIdFromHintSession cfg tid p s) =
     [APerformanceHint_closeSession (hint_session s),
      APerformanceHint_createSession (hint_manager s)
        (filter (\<lambda>t. t \<noteq> tid) (thread_ids s))
        (length (filter (\<lambda>t. t \<noteq> tid) (thread_ids s))) (last_target s)]"
  using Register_recreation
      [of cfg "s\<lparr>thread_ids := filter (\<lambda>t. t \<noteq> tid) (thread_ids s)\<rparr>" p]
  by (simp add: RemoveThreadIdFromHintSession_def appended_thread_ids_update)

text \<open>
  Claim C9. In every state, whether or not the id is in the list,
  \<open>RemoveThreadIdFromHintSession\<close> hands the whole list that remains to the platform; on
  the session-recreation tier (built for API 33) with a session, it does so by closing
  that session and creating a new one. When the id is not in the list, the list is left
  as it is, the unchanged list is still handed to the platform, and on the
  session-recreation tier the session is still closed and recreated, for the unchanged
  list.
\<close>

theorem Remove_absent_id_still_synchronizes:
  "thread_ids (RemoveThreadIdFromHintSession cfg tid p s) =
     filter (\<lambda>t. t \<noteq> tid) (thread_ids s) \<and>
   last_synchronized (appended s (RemoveThreadIdFromHintSession cfg tid p s)) =
     Some (filter (\<lambda>t. t \<noteq> tid) (thread_ids s)) \<and>
   (ANDROID_API cfg = 33 \<and> hint_session s \<noteq> nullptr \<longrightarrow>
      appended s (RemoveThreadIdFromHintSession cfg tid p s) =
        [APerformanceHint_closeSession (hint_session s),
         APerformanceHint_createSession (hint_manager s)
           (filter (\<lambda>t. t \<noteq> tid) (thread_ids s))
           (length (filter (\<lambda>t. t \<noteq> tid) (thread_ids s))) (last_target s)]) \<and>
   (tid \<notin> set (thread_ids s) \<longrightarrow>
      thread_ids (RemoveThreadIdFromHintSession cfg tid p s) = thread_ids s \<and>
      last_synchronized (appended s (RemoveThreadIdFromHintSession cfg tid p s)) =
        Some (thread_ids s) \<and>
      (ANDROID_API cfg = 33 \<and> hint_session s \<noteq> nullptr \<longrightarrow>
         appended s (RemoveThreadIdFromHintSession cfg tid p s) =
           [APerformanceHint_closeSession (hint_session s),
            APerformanceHint_createSession (hint_manager s) (thread_ids s)
              (length (thread_ids s)) (last_target s)]))"
proof -
  have always:
    "thread_ids (RemoveThreadIdFromHintSession cfg tid p s) =
       filter (\<lambda>t. t \<noteq> tid) (thread_ids s)"
    "last_synchronized (appended s (RemoveThreadIdFromHintSession cfg tid p s)) =
       Some (filter (\<lambda>t. t \<noteq> tid) (thread_ids s))"
    by (simp_all add: Remove_thread_ids Remove_synchronizes)
  have recreated: "appended s (RemoveThreadIdFromHintSession cfg tid p s) =
        [APerformanceHint_closeSession (hint_session s),
         APerformanceHint_createSession (hint_manager s)
           (filter (\<lambda>t. t \<noteq> tid) (thread_ids s))
           (length (filter (\<lambda>t. t \<noteq> tid) (thread_ids s))) (last_target s)]"
    if "ANDROID_API cfg = 33" "hint_session s \<noteq> nullptr"
    using that by (rule Remove_recreation)
  have same: "filter (\<lambda>t. t \<noteq> tid) (thread_ids s) = thread_ids s"
    if "tid \<notin> set (thread_ids s)"
    using that by (auto simp: filter_id_conv)
  show ?thesis
    using always recreated same by simp
qed

text \<open>
  On the API 33 build after \<open>SetApplication\<close>, where the list is \<open>[100]\<close>: removing the
  absent id 7 closes session 11 and recreates it for \<open>[100]\<close>; removing the present id
  100 closes it and recreates it for the empty list.
\<close>

theorem Remove_absent_id_still_synchronizes_witness:
  "thread_ids (RemoveThreadIdFromHintSession build_api33 7 platform_answers started_api33) =
     [100] \<and>
   appended started_api33
     (RemoveThreadIdFromHintSession build_api33 7 platform_answers started_api33) =
     [APerformanceHint_closeSession 11,
      APerformanceHint_createSession 10 [100] 1 16666666] \<and>
   thread_ids (RemoveThreadIdFromHintSession build_api33 100 platform_answers started_api33) =
     [] \<and>
   appended started_api33
     (RemoveThreadIdFromHintSession build_api33 100 platform_answers started_api33) =
     [APerformanceHint_closeSession 11,
      APerformanceHint_createSession 10 [] 0 16666666]"
  using Remove_absent_id_still_synchronizes
      [where cfg = build_api33 and tid = 7 and p = platform_answers and s = started_api33]
    Remove_absent_id_still_synchronizes
      [where cfg = build_api33 and tid = 100 and p = platform_answers and s = started_api33]
  by (simp add: eval_defs)

text \<open>
  Claim C8. On the JNI tier with the \<^verbatim>\<open>setThreads\<close> method id, when the platform call
  throws during \<open>AddThreadIdToHintSession\<close> or \<open>RemoveThreadIdFromHintSession\<close>, the call
  is followed by \<^verbatim>\<open>ExceptionCheck\<close>, \<^verbatim>\<open>ExceptionDescribe\<close> and \<^verbatim>\<open>ExceptionClear\<close>, and no
  exception is pending in the JNI environment when the member function returns.
\<close>

theorem setThreads_exception_is_cleared:
  assumes "ANDROID_API cfg < 33" and "set_threads s \<noteq> nullptr" and "setThreads_throws p"
  shows "jni_exception_pending (AddThreadIdToHintSession cfg tid p s) = False \<and>
         appended s (AddThreadIdToHintSession cfg tid p s) =
           [JNI_NewIntArray (length (thread_ids s @ [tid])),
            JNI_SetIntArrayRegion 0 (length (thread_ids s @ [tid])) (thread_ids s @ [tid]),
            JNI_CallVoidMethod_array (obj_perfhint_session s) (set_threads s)
              (thread_ids s @ [tid]),
            JNI_ExceptionCheck, JNI_ExceptionDescribe, JNI_ExceptionClear] \<and>
         jni_exception_pending (RemoveThreadIdFromHintSession cfg tid p s) = False \<and>
         appended s (RemoveThreadIdFromHintSession cfg tid p s) =
           [JNI_NewIntArray (length (filter (\<lambda>t. t \<noteq> tid) (thread_ids s))),
            JNI_SetIntArrayRegion 0 (length (filter (\<lambda>t. t \<noteq> tid) (thread_ids s)))
              (filter (\<lambda>t. t \<noteq> tid) (thread_ids s)),
            JNI_CallVoidMethod_array (obj_perfhint_session s) (set_threads s)
              (filter (\<lambda>t. t \<noteq> tid) (thread_ids s)),
            JNI_ExceptionCheck, JNI_ExceptionDescribe, JNI_ExceptionClear]"
proof -
  let ?a = "s\<lparr>thread_ids := thread_ids s @ [tid]\<rparr>"
  let ?r = "s\<lparr>thread_ids := filter (\<lambda>t. t \<noteq> tid) (thread_ids s)\<rparr>"
  have a: "set_threads ?a \<noteq> nullptr" and r: "set_threads ?r \<noteq> nullptr"
    using assms(2) by simp_all
  show ?thesis
    using Register_reflective_setThreads [OF assms(1) a, of p]
      Register_reflective_setThreads [OF assms(1) r, of p] assms(3)
    by (simp add: AddThreadIdToHintSession_def RemoveThreadIdFromHintSession_def
        appended_thread_ids_update)
qed

text \<open>Adding thread 200 on the API 31 build while \<^verbatim>\<open>setThreads\<close> throws.\<close>

theorem setThreads_exception_is_cleared_witness:
  "jni_exception_pending
     (AddThreadIdToHintSession build_api31 200 platform_setThreads_throws started_api31) =
     False \<and>
   appended started_api31
     (AddThreadIdToHintSession build_api31 200 platform_setThreads_throws started_api31) =
     [JNI_NewIntArray 1, JNI_SetIntArrayRegion 0 1 [200],
      JNI_CallVoidMethod_array 42 45 [200],
      JNI_ExceptionCheck, JNI_ExceptionDescribe, JNI_ExceptionClear]"
  using setThreads_exception_is_cleared
      [of build_api31 started_api31 platform_setThreads_throws 200]
  by (simp add: eval_defs)

text \<open>
  On the session-recreation tier with a session, adding a thread id closes the session
  and creates one for the extended list, with the target held in \<open>last_target\<close>;
  \<open>EndPerfHintSession\<close> leaves \<open>last_target\<close> as it is.
\<close>

lemma Add_recreation:
  "ANDROID_API cfg = 33 \<Longrightarrow> hint_session s \<noteq> nullptr \<Longrightarrow>
   appended s (AddThreadIdToHintSession cfg tid p s) =
     [APerformanceHint_closeSession (hint_session s),
      APerformanceHint_createSession (hint_manager s) (thread_ids s @ [tid])
        (Suc (length (thread_ids s))) (last_target s)]"
  using Register_recreation [of cfg "s\<lparr>thread_ids := thread_ids s @ [tid]\<rparr>" p]
  by (simp add: AddThreadIdToHintSession_def appended_thread_ids_update)

lemma EndPerfHintSession_keeps_last_target:
  "last_target (EndPerfHintSession cfg now target_duration_ns s) = last_target s"
  by (simp add: EndPerfHintSession_def op_defs)

text \<open>
  Claim C3. The claim asks that the session recreated by \<open>AddThreadIdToHintSession\<close>
  carry the target of the most recent \<open>EndPerfHintSession\<close>. On the API 33 build, after
  a frame ended with target 8333333, adding thread 200 closes session 11 and creates a
  session for \<open>[100, 200]\<close> with target 16666666: \<open>EndPerfHintSession\<close> does not store
  its target in \<open>last_target\<close>, which keeps its initial value.
\<close>

theorem recreated_session_ignores_last_EndPerfHintSession_target:
  "hint_session started_api33 = 11 \<and>
   last_target (EndPerfHintSession build_api33 9000000 8333333
                  (BeginPerfHintSession 5000000 started_api33)) = 16666666 \<and>
   appended
     (EndPerfHintSession build_api33 9000000 8333333 (BeginPerfHintSession 5000000 started_api33))
     (AddThreadIdToHintSession build_api33 200 platform_answers
        (EndPerfHintSession build_api33 9000000 8333333
           (BeginPerfHintSession 5000000 started_api33))) =
     [APerformanceHint_closeSession 11,
      APerformanceHint_createSession 10 [100, 200] 2 16666666]"
  by (simp add: appended_def EndPerfHintSession_def BeginPerfHintSession_def
      AddThreadIdToHintSession_def RegisterThreadIdsToHintSession_def eval_defs)

subsection \<open>Teardown\<close>

text \<open>
  With \<^verbatim>\<open>__ANDROID_API\<close> undefined, the destructor appends no release of a thermal
  manager, in any state.
\<close>

lemma dtor_never_releases_manager:
  "ANDROID_API_unsuffixed cfg = 0 \<Longrightarrow>
   AThermal_releaseManager h \<notin> set (appended s (ADPFManager_dtor cfg s))"
  by (simp add: appended_def ADPFManager_dtor_def op_defs)

text \<open>
  Claim C6. The claim asks that the acquired thermal manager be released at teardown.
  On the API 33 build \<open>SetApplication\<close> acquires the thermal manager 20 and creates the
  session 11; the destructor closes the session and makes no other call: the release
  is compiled under \<^verbatim>\<open>__ANDROID_API\<close>, which is 0, and not under \<^verbatim>\<open>__ANDROID_API__\<close>.
\<close>

theorem dtor_does_not_release_thermal_manager:
  "thermal_manager started_api33 = 20 \<and>
   appended started_api33 (ADPFManager_dtor build_api33 started_api33) =
     [APerformanceHint_closeSession 11] \<and>
   AThermal_releaseManager 20 \<notin> set (trace (ADPFManager_dtor build_api33 started_api33))"
  by (simp add: appended_def ADPFManager_dtor_def eval_defs)

end
